theory Spec2Isabelle
  imports Main "HOL-Library.Char_ord" "HOL-Library.List_Lexorder" "HOL-Library.Multiset"
begin

section \<open>Data model of the effect system\<close>

text \<open>
  The variables an effect acts upon. A quantified node carries, besides its name, the
  identity of the JavaScript object (\<open>oid\<close>): the code never creates a quantified
  Variables object, it only passes the caller's objects around, and \<open>uniqueVariables\<close>
  drops repeated references to one object. Concrete and union nodes are rebuilt by every
  function that returns them, so they need no identity here.
\<close>

datatype Variables =
    VConcrete "string list"
  | VQuantified nat string
  | VUnion "Variables list"

datatype Effect =
    EConcrete Variables Variables
  | EArrow "Effect list" Effect
  | EQuantified string

datatype ErrorTree = ErrorTree (message: "string option") (location: string) (children: "ErrorTree list")

text \<open>\<open>type Error = ErrorTree | ErrorTree[]\<close>\<close>

datatype Error = One ErrorTree | Many "ErrorTree list"

datatype Substitution =
    SVariable string Variables
  | SEffect string Effect

fun sub_name :: "Substitution \<Rightarrow> string" where
  "sub_name (SVariable n v) = n"
| "sub_name (SEffect n e) = n"

definition emptyVariables :: Variables where
  "emptyVariables = VConcrete []"

subsection \<open>The Either combinators used by the code\<close>

definition chain :: "'e + 'a \<Rightarrow> ('a \<Rightarrow> 'e + 'b) \<Rightarrow> 'e + 'b" where
  "chain r f = (case r of Inl e \<Rightarrow> Inl e | Inr a \<Rightarrow> f a)"

definition mapRight :: "('a \<Rightarrow> 'b) \<Rightarrow> 'e + 'a \<Rightarrow> 'e + 'b" where
  "mapRight f r = (case r of Inl e \<Rightarrow> Inl e | Inr a \<Rightarrow> Inr (f a))"

definition mapLeft :: "('e \<Rightarrow> 'f) \<Rightarrow> 'e + 'a \<Rightarrow> 'f + 'a" where
  "mapLeft f r = (case r of Inl e \<Rightarrow> Inl (f e) | Inr a \<Rightarrow> Inr a)"

text \<open>\<open>mergeInMany\<close>: all the right values, or else the list of all the left values.\<close>

definition lefts :: "('e + 'a) list \<Rightarrow> 'e list" where
  "lefts rs = concat (map (\<lambda>r. case r of Inl e \<Rightarrow> [e] | Inr a \<Rightarrow> []) rs)"

definition rights :: "('e + 'a) list \<Rightarrow> 'a list" where
  "rights rs = concat (map (\<lambda>r. case r of Inl e \<Rightarrow> [] | Inr a \<Rightarrow> [a]) rs)"

definition mergeInMany :: "('e + 'a) list \<Rightarrow> 'e list + 'a list" where
  "mergeInMany rs = (if lefts rs = [] then Inr (rights rs) else Inl (lefts rs))"

subsection \<open>Pretty printing\<close>

fun join :: "string \<Rightarrow> string list \<Rightarrow> string" where
  "join sep [] = []"
| "join sep [x] = x"
| "join sep (x # y # ys) = x @ sep @ join sep (y # ys)"

definition quote :: "string \<Rightarrow> string" where
  "quote v = [CHR 0x27] @ v @ [CHR 0x27]"

fun variablesToString :: "Variables \<Rightarrow> string" where
  "variablesToString (VConcrete vars) = join '', '' (map quote vars)"
| "variablesToString (VQuantified i n) = n"
| "variablesToString (VUnion vs) = join '', '' (map variablesToString vs)"

fun nonEmptyVars :: "Variables \<Rightarrow> bool" where
  "nonEmptyVars (VConcrete vars) = (length vars > 0)"
| "nonEmptyVars v = True"

fun effectToString :: "Effect \<Rightarrow> string" where
  "effectToString (EConcrete r u) =
     (let output = (if nonEmptyVars r then [''Read['' @ variablesToString r @ '']''] else []) @
                   (if nonEmptyVars u then [''Update['' @ variablesToString u @ '']''] else [])
      in if length output > 0 then join '' & '' output else ''Pure'')"
| "effectToString (EQuantified n) = n"
| "effectToString (EArrow ps r) =
     ''('' @ join '', '' (map effectToString ps) @ '') => '' @ effectToString r"

text \<open>Decimal rendering of a length inside a template string.\<close>

fun digits :: "nat \<Rightarrow> nat \<Rightarrow> string" where
  "digits 0 n = []"
| "digits (Suc f) n =
     (if n < 10 then [char_of (48 + n)] else digits f (n div 10) @ [char_of (48 + n mod 10)])"

definition numberToString :: "nat \<Rightarrow> string" where
  "numberToString n = digits (Suc n) n"

subsection \<open>Error trees\<close>

fun buildErrorTree :: "string \<Rightarrow> Error \<Rightarrow> ErrorTree" where
  "buildErrorTree loc (One e) = (if loc = location e then e else ErrorTree None loc [e])"
| "buildErrorTree loc (Many es) = ErrorTree None loc es"

definition buildErrorLeaf :: "string \<Rightarrow> string \<Rightarrow> ErrorTree" where
  "buildErrorLeaf loc msg = ErrorTree (Some msg) loc []"

section \<open>Canonical forms of variables\<close>

fun findVars :: "Variables \<Rightarrow> string list" where
  "findVars (VQuantified i n) = []"
| "findVars (VConcrete vars) = vars"
| "findVars (VUnion vs) = concat (map findVars vs)"

text \<open>
  One step of the \<open>forEach\<close> of \<open>flattenUnions\<close>: the state is the pair of the two
  arrays \<open>unionVariables\<close> and \<open>vars\<close>.
\<close>

fun flattenStep :: "Variables \<Rightarrow> Variables list \<times> string list \<Rightarrow> Variables list \<times> string list" where
  "flattenStep (VQuantified i n) (unionVariables, vars) = (unionVariables @ [VQuantified i n], vars)"
| "flattenStep (VConcrete xs) (unionVariables, vars) = (unionVariables, vars @ xs)"
| "flattenStep (VUnion ws) (unionVariables, vars) = (unionVariables @ ws, vars)"

definition flattenResult :: "Variables list \<times> string list \<Rightarrow> Variables" where
  "flattenResult st = (case st of (unionVariables, vars) \<Rightarrow>
     if length unionVariables > 0 then
       (let variables = (if length vars > 0 then unionVariables @ [VConcrete vars] else unionVariables)
        in if length variables > 1 then VUnion variables else variables ! 0)
     else VConcrete vars)"

fun flattenUnions :: "Variables \<Rightarrow> Variables" where
  "flattenUnions (VUnion vs) = flattenResult (fold flattenStep (map flattenUnions vs) ([], []))"
| "flattenUnions (VConcrete xs) = VConcrete xs"
| "flattenUnions (VQuantified i n) = VQuantified i n"

text \<open>
  \<open>Array.from(new Set(xs))\<close>: a Set iterates in insertion order, so the first occurrence
  of every element is the one that stays.
\<close>

definition arrayFromSet :: "'a list \<Rightarrow> 'a list" where
  "arrayFromSet xs = rev (remdups (rev xs))"

text \<open>
  \<open>new Set<Variables>(nestedVariables)\<close> compares objects by identity. The elements are
  results of \<open>uniqueVariables\<close>: a concrete or union result is a new object, a quantified
  result is the argument itself, so only a repeated reference to one quantified object is
  dropped.
\<close>

fun setOfObjects :: "nat list \<Rightarrow> Variables list \<Rightarrow> Variables list" where
  "setOfObjects seen [] = []"
| "setOfObjects seen (VQuantified i n # vs) =
     (if i \<in> set seen then setOfObjects seen vs else VQuantified i n # setOfObjects (i # seen) vs)"
| "setOfObjects seen (v # vs) = v # setOfObjects seen vs"

fun uniqueVariables :: "Variables \<Rightarrow> Variables" where
  "uniqueVariables (VQuantified i n) = VQuantified i n"
| "uniqueVariables (VConcrete vars) = VConcrete (arrayFromSet vars)"
| "uniqueVariables (VUnion vs) = VUnion (setOfObjects [] (map uniqueVariables vs))"

section \<open>Applying substitutions\<close>

definition simplifyConcreteEffect :: "Variables \<Rightarrow> Variables \<Rightarrow> ErrorTree + Effect" where
  "simplifyConcreteEffect r u =
     (let read = uniqueVariables (flattenUnions r);
          update = flattenUnions u;
          updateVars = findVars u;
          repeated = filter (\<lambda>v. length (filter (\<lambda>v2. v = v2) updateVars) > 1) updateVars
      in if length repeated > 0 then
           Inl (ErrorTree
                 (Some (''Multiple updates of variable(s): '' @ join '','' (arrayFromSet repeated)))
                 (''Trying to simplify effect '' @ effectToString (EConcrete r u)) [])
         else Inr (EConcrete read update))"

text \<open>\<open>e.kind === 'concrete' ? simplifyConcreteEffect(e) : right(e)\<close>\<close>

fun simplifyIfConcrete :: "Effect \<Rightarrow> ErrorTree + Effect" where
  "simplifyIfConcrete (EConcrete r u) = simplifyConcreteEffect r u"
| "simplifyIfConcrete e = Inr e"

fun applySubstitutionToVariables :: "Substitution list \<Rightarrow> Variables \<Rightarrow> Variables" where
  "applySubstitutionToVariables subs (VQuantified i n) =
     (case find (\<lambda>s. sub_name s = n) subs of
        Some (SVariable m v) \<Rightarrow> v
      | _ \<Rightarrow> VQuantified i n)"
| "applySubstitutionToVariables subs (VUnion vs) = VUnion (map (applySubstitutionToVariables subs) vs)"
| "applySubstitutionToVariables subs (VConcrete xs) = VConcrete xs"

fun applySubstitution :: "Substitution list \<Rightarrow> Effect \<Rightarrow> ErrorTree + Effect" where
  "applySubstitution subs (EQuantified n) =
     chain (case find (\<lambda>s. sub_name s = n) subs of
              Some (SEffect m v) \<Rightarrow> Inr v
            | _ \<Rightarrow> Inr (EQuantified n))
           simplifyIfConcrete"
| "applySubstitution subs (EArrow ps r) =
     chain (mapLeft (buildErrorTree (''Applying substitution to arrow effect '' @ effectToString (EArrow ps r)))
             (chain (mapLeft Many (mergeInMany (map (applySubstitution subs) ps)))
                (\<lambda>ps'. mapLeft One (mapRight (\<lambda>r'. EArrow ps' r') (applySubstitution subs r)))))
           simplifyIfConcrete"
| "applySubstitution subs (EConcrete r u) =
     chain (Inr (EConcrete (applySubstitutionToVariables subs r) (applySubstitutionToVariables subs u)))
           simplifyIfConcrete"

section \<open>Binding and the occurs check\<close>

text \<open>
  \<open>effectNames\<close> and \<open>variablesNames\<close> build a new \<open>Name\<close> object for every quantified
  name they meet, and \<open>Array.prototype.includes\<close> compares objects by identity. So a Name
  carries the address at which it was allocated, and the walks thread the next free address.
\<close>

datatype NameKind = KEffect | KVariable

datatype Name = Name (addr: nat) (kind: NameKind) (name: string)

fun variablesNames :: "Variables \<Rightarrow> nat \<Rightarrow> Name list \<times> nat" where
  "variablesNames (VConcrete xs) h = ([], h)"
| "variablesNames (VQuantified i n) h = ([Name h KVariable n], Suc h)"
| "variablesNames (VUnion vs) h =
     fold (\<lambda>v (acc, h'). case variablesNames v h' of (ns, h'') \<Rightarrow> (acc @ ns, h'')) vs ([], h)"

fun effectNames :: "Effect \<Rightarrow> nat \<Rightarrow> Name list \<times> nat" where
  "effectNames (EConcrete r u) h =
     (case variablesNames r h of (ns, h') \<Rightarrow>
        case variablesNames u h' of (ms, h'') \<Rightarrow> (ns @ ms, h''))"
| "effectNames (EArrow ps r) h =
     (case fold (\<lambda>e (acc, h'). case effectNames e h' of (ns, h'') \<Rightarrow> (acc @ ns, h'')) ps ([], h) of
        (ns, h') \<Rightarrow> case effectNames r h' of (ms, h'') \<Rightarrow> (ns @ ms, h''))"
| "effectNames (EQuantified n) h = ([Name h KEffect n], Suc h)"

text \<open>\<open>includes\<close> on an array of objects: is the very same object in the array?\<close>

definition arrayIncludes :: "Name list \<Rightarrow> Name \<Rightarrow> bool" where
  "arrayIncludes xs x = list_ex (\<lambda>y. addr y = addr x) xs"

text \<open>
  The object literal searched for is allocated after the walk has returned. The addresses
  are those of the objects made during this call, counted from 0.
\<close>

definition bindEffect :: "string \<Rightarrow> Effect \<Rightarrow> string + Substitution" where
  "bindEffect n effect =
     (case effectNames effect 0 of (names, h) \<Rightarrow>
        if arrayIncludes names (Name h KEffect n) then
          Inl (''Can'' @ [CHR 0x27] @ ''t bind '' @ n @ '' to '' @ effectToString effect @ '': cyclical binding'')
        else Inr (SEffect n effect))"

definition bindVariables :: "string \<Rightarrow> Variables \<Rightarrow> string + Substitution" where
  "bindVariables n variables =
     (case variablesNames variables 0 of (names, h) \<Rightarrow>
        if arrayIncludes names (Name h KVariable n) then
          Inl (''Can'' @ [CHR 0x27] @ ''t bind '' @ n @ '' to '' @ variablesToString variables @ '': cyclical binding'')
        else Inr (SVariable n variables))"

section \<open>Unification\<close>

text \<open>
  \<open>sortStrings\<close> sorts with the comparator \<open>n1 > n2 ? 1 : -1\<close> on strings, which orders
  two different strings by their code units; the result is the sorted array. In this
  section a bag is a value and keeps the order of names it was built with; that the sort
  happens in place, on the caller's array, is the subject of the store model further down.
\<close>

definition sortStrings :: "string list \<Rightarrow> string list" where
  "sortStrings array = sort array"

definition sameVars :: "string list \<Rightarrow> string list \<Rightarrow> bool" where
  "sameVars v1 v2 =
     (let v1s = sortStrings v1; v2s = sortStrings v2
      in length v1s = length v2s \<and> list_all (\<lambda>index. v1s ! index = v2s ! index) [0..<length v1s])"

text \<open>
  \<open>JSON.stringify(v1) === JSON.stringify(v2)\<close>: the two values have the same kinds, names
  and variables throughout; object identity is not serialised.
\<close>

fun stringify :: "Variables \<Rightarrow> Variables" where
  "stringify (VConcrete xs) = VConcrete xs"
| "stringify (VQuantified i n) = VQuantified 0 n"
| "stringify (VUnion vs) = VUnion (map stringify vs)"

text \<open>
  The message of the first branch is built after \<open>sameVars\<close> has sorted both arrays, so it
  shows them sorted; an array in a template string is joined with commas.
\<close>

definition unifyVariables :: "Variables \<Rightarrow> Variables \<Rightarrow> ErrorTree + Substitution list" where
  "unifyVariables va vb =
     (let v1 = flattenUnions va; v2 = flattenUnions vb;
          loc = ''Trying to unify variables ['' @ variablesToString v1 @ ''] and ['' @
                variablesToString v2 @ '']''
      in case (v1, v2) of
           (VConcrete xs, VConcrete ys) \<Rightarrow>
             if sameVars xs ys then Inr []
             else Inl (ErrorTree
                        (Some (''Expected variables ['' @ join '','' (sortStrings xs) @ ''] and ['' @
                               join '','' (sortStrings ys) @ ''] to be the same'')) loc [])
         | (VQuantified i n, VQuantified j m) \<Rightarrow>
             if n = m then Inr []
             else mapLeft (buildErrorLeaf loc) (mapRight (\<lambda>subs. [subs]) (bindVariables n v2))
         | (VQuantified i n, _) \<Rightarrow>
             mapLeft (buildErrorLeaf loc) (mapRight (\<lambda>subs. [subs]) (bindVariables n v2))
         | (_, VQuantified j m) \<Rightarrow>
             mapLeft (buildErrorLeaf loc) (mapRight (\<lambda>subs. [subs]) (bindVariables m v1))
         | _ \<Rightarrow>
             if stringify v1 = stringify v2 then Inr []
             else Inl (ErrorTree (Some ''Unification for unions of variables is not implemented'') loc []))"

fun applySubstitutionsToSubstitution :: "Substitution list \<Rightarrow> Substitution \<Rightarrow> ErrorTree + Substitution" where
  "applySubstitutionsToSubstitution subs (SEffect n v) = mapRight (SEffect n) (applySubstitution subs v)"
| "applySubstitutionsToSubstitution subs (SVariable n v) = Inr (SVariable n (applySubstitutionToVariables subs v))"

text \<open>A \<open>Substitution[]\<close> inside a template string.\<close>

definition substitutionsToString :: "Substitution list \<Rightarrow> string" where
  "substitutionsToString s = join '','' (map (\<lambda>b. ''[object Object]'') s)"

definition compose :: "Substitution list \<Rightarrow> Substitution list \<Rightarrow> ErrorTree + Substitution list" where
  "compose s1 s2 =
     mapLeft (\<lambda>error. buildErrorTree (''Composing substitutions '' @ substitutionsToString s1 @ '' and '' @
                                       substitutionsToString s2) (Many error))
       (mapRight (\<lambda>s. s1 @ s) (mergeInMany (map (applySubstitutionsToSubstitution s1) s2)))"

text \<open>
  \<open>unifyConcrete\<close>. The update result is chained on the read result, and \<open>merge\<close> returns
  the first error of the two or else both lists, which are then flattened into one: so
  an error of the read unification is the result, and otherwise an error of the update
  part. The value \<open>None\<close> stands for the exception of \<open>ensureConcreteEffect\<close>.
\<close>

definition unifyConcrete :: "string \<Rightarrow> Variables \<Rightarrow> Variables \<Rightarrow> Variables \<Rightarrow> Variables \<Rightarrow>
    (Error + Substitution list) option" where
  "unifyConcrete loc r1 u1 r2 u2 =
     (case unifyVariables r1 r2 of
        Inl e \<Rightarrow> Some (Inl (One e))
      | Inr subs \<Rightarrow>
          (case mergeInMany [applySubstitution subs (EConcrete r1 u1), applySubstitution subs (EConcrete r2 u2)] of
             Inl errs \<Rightarrow> Some (Inl (Many errs))
           | Inr [EConcrete r1s u1s, EConcrete r2s u2s] \<Rightarrow>
               (case unifyVariables u1s u2s of
                  Inl e \<Rightarrow> Some (Inl (One e))
                | Inr subs2 \<Rightarrow> Some (Inr (concat [subs, subs2])))
           | Inr _ \<Rightarrow> None))"

text \<open>
  \<open>unify\<close> and \<open>unifyArrows\<close> call each other; the recursive \<open>unify\<close> is the parameter \<open>u\<close>,
  and \<open>None\<close> is a call that returns no value.
\<close>

definition applySubstitutionsAndUnify ::
  "(Effect \<Rightarrow> Effect \<Rightarrow> (ErrorTree + Substitution list) option) \<Rightarrow>
   Substitution list \<Rightarrow> Effect \<Rightarrow> Effect \<Rightarrow> (Error + Substitution list) option" where
  "applySubstitutionsAndUnify u subs e1 e2 =
     (case mergeInMany [applySubstitution subs e1, applySubstitution subs e2] of
        Inl errs \<Rightarrow> Some (Inl (Many errs))
      | Inr es \<Rightarrow>
          (case u (es ! 0) (es ! 1) of
             None \<Rightarrow> None
           | Some (Inl e) \<Rightarrow> Some (Inl (One e))
           | Some (Inr newSubs) \<Rightarrow> Some (mapLeft One (compose subs newSubs))))"

definition unifyArrows ::
  "(Effect \<Rightarrow> Effect \<Rightarrow> (ErrorTree + Substitution list) option) \<Rightarrow>
   string \<Rightarrow> Effect list \<Rightarrow> Effect \<Rightarrow> Effect list \<Rightarrow> Effect \<Rightarrow> (Error + Substitution list) option" where
  "unifyArrows u loc ps1 r1 ps2 r2 =
     (if length ps1 \<noteq> length ps2 then
        Some (Inl (One (ErrorTree
          (Some (''Expected '' @ numberToString (length ps1) @ '' arguments, got '' @ numberToString (length ps2)))
          loc [])))
      else
        (case fold (\<lambda>(e, e') result.
                      case result of
                        Some (Inr subs) \<Rightarrow> applySubstitutionsAndUnify u subs e e'
                      | other \<Rightarrow> other)
                   (zip ps1 ps2) (Some (Inr [])) of
           Some (Inr subs) \<Rightarrow> applySubstitutionsAndUnify u subs r1 r2
         | other \<Rightarrow> other))"

definition unifyBody ::
  "(Effect \<Rightarrow> Effect \<Rightarrow> (ErrorTree + Substitution list) option) \<Rightarrow>
   Effect \<Rightarrow> Effect \<Rightarrow> (ErrorTree + Substitution list) option" where
  "unifyBody u ea eb =
     (let loc = ''Trying to unify '' @ effectToString ea @ '' and '' @ effectToString eb
      in map_option (mapLeft (buildErrorTree loc))
          (case mergeInMany (map simplifyIfConcrete [ea, eb]) of
             Inl errs \<Rightarrow> Some (Inl (Many errs))
           | Inr es \<Rightarrow>
              (case (es ! 0, es ! 1) of
                 (EArrow ps1 r1, EArrow ps2 r2) \<Rightarrow> unifyArrows u loc ps1 r1 ps2 r2
               | (EConcrete r1 u1, EConcrete r2 u2) \<Rightarrow> unifyConcrete loc r1 u1 r2 u2
               | (EQuantified n, e2) \<Rightarrow>
                   Some (mapLeft (\<lambda>msg. One (buildErrorLeaf loc msg)) (mapRight (\<lambda>subs. [subs]) (bindEffect n e2)))
               | (e1, EQuantified n) \<Rightarrow>
                   Some (mapLeft (\<lambda>msg. One (buildErrorLeaf loc msg)) (mapRight (\<lambda>subs. [subs]) (bindEffect n e1)))
               | _ \<Rightarrow>
                   Some (Inl (One (ErrorTree (Some (''Can'' @ [CHR 0x27] @ ''t unify different types of effects''))
                                     loc []))))))"

text \<open>
  \<open>unify\<close> with a bound on the depth of its recursion: \<open>unify n\<close> is \<open>None\<close> when the call
  needs more than \<open>n\<close> nested calls.
\<close>

primrec unify :: "nat \<Rightarrow> Effect \<Rightarrow> Effect \<Rightarrow> (ErrorTree + Substitution list) option" where
  "unify 0 = (\<lambda>ea eb. None)"
| "unify (Suc n) = unifyBody (unify n)"

section \<open>The arrays of names as mutable objects\<close>

text \<open>
  \<open>Array.prototype.sort\<close> sorts the array it is called on and returns that same array. To
  see what \<open>sortStrings\<close> does to the caller's values, the arrays of names live in a store
  (the address of an array is its index in the store) and a concrete bag holds the
  address of its \<open>vars\<close> array.
\<close>

type_synonym store = "string list list"

datatype HVariables =
    HConcrete nat
  | HQuantified nat string
  | HUnion "HVariables list"

datatype HSubstitution = HSVariable string HVariables

text \<open>The value a bag has in a given store.\<close>

fun readVariables :: "store \<Rightarrow> HVariables \<Rightarrow> Variables" where
  "readVariables st (HConcrete a) = VConcrete (st ! a)"
| "readVariables st (HQuantified i n) = VQuantified i n"
| "readVariables st (HUnion vs) = VUnion (map (readVariables st) vs)"

definition sortStringsH :: "nat \<Rightarrow> store \<Rightarrow> nat \<times> store" where
  "sortStringsH array st = (array, st[array := sort (st ! array)])"

definition sameVarsH :: "nat \<Rightarrow> nat \<Rightarrow> store \<Rightarrow> bool \<times> store" where
  "sameVarsH v1 v2 st =
     (case sortStringsH v1 st of (v1s, st1) \<Rightarrow>
      case sortStringsH v2 st1 of (v2s, st2) \<Rightarrow>
        (length (st2 ! v1s) = length (st2 ! v2s) \<and>
         list_all (\<lambda>index. st2 ! v1s ! index = st2 ! v2s ! index) [0..<length (st2 ! v1s)], st2))"

text \<open>
  \<open>flattenUnions\<close> on a union allocates its local array \<open>vars\<close>, flattens the children and
  pushes the names of the concrete ones into \<open>vars\<close>; every other value is returned as
  it is, the same object with the same array.
\<close>

fun flattenStepH :: "nat \<Rightarrow> HVariables \<Rightarrow> HVariables list \<times> store \<Rightarrow> HVariables list \<times> store" where
  "flattenStepH vars (HQuantified i n) (unionVariables, st) = (unionVariables @ [HQuantified i n], st)"
| "flattenStepH vars (HConcrete a) (unionVariables, st) = (unionVariables, st[vars := st ! vars @ st ! a])"
| "flattenStepH vars (HUnion ws) (unionVariables, st) = (unionVariables @ ws, st)"

fun flattenUnionsH :: "HVariables \<Rightarrow> store \<Rightarrow> HVariables \<times> store" where
  "flattenUnionsH (HUnion vs) st =
     (let vars = length st;
          (flattenVariables, st1) =
             fold (\<lambda>v (acc, s). case flattenUnionsH v s of (v', s') \<Rightarrow> (acc @ [v'], s')) vs ([], st @ [[]]);
          (unionVariables, st2) = fold (flattenStepH vars) flattenVariables ([], st1)
      in if length unionVariables > 0 then
           (let variables = (if length (st2 ! vars) > 0 then unionVariables @ [HConcrete vars] else unionVariables)
            in if length variables > 1 then (HUnion variables, st2) else (variables ! 0, st2))
         else (HConcrete vars, st2))"
| "flattenUnionsH (HConcrete a) st = (HConcrete a, st)"
| "flattenUnionsH (HQuantified i n) st = (HQuantified i n, st)"

definition bindVariablesH :: "string \<Rightarrow> HVariables \<Rightarrow> store \<Rightarrow> string + HSubstitution" where
  "bindVariablesH n variables st =
     (case bindVariables n (readVariables st variables) of
        Inl msg \<Rightarrow> Inl msg
      | Inr b \<Rightarrow> Inr (HSVariable n variables))"

definition unifyVariablesH :: "HVariables \<Rightarrow> HVariables \<Rightarrow> store \<Rightarrow> (ErrorTree + HSubstitution list) \<times> store" where
  "unifyVariablesH va vb st =
     (case flattenUnionsH va st of (v1, st1) \<Rightarrow>
     (case flattenUnionsH vb st1 of (v2, st2) \<Rightarrow>
     (let loc = ''Trying to unify variables ['' @ variablesToString (readVariables st2 v1) @ ''] and ['' @
                variablesToString (readVariables st2 v2) @ '']''
      in case (v1, v2) of
           (HConcrete xs, HConcrete ys) \<Rightarrow>
             (case sameVarsH xs ys st2 of (same, st3) \<Rightarrow>
                if same then (Inr [], st3)
                else (Inl (ErrorTree
                        (Some (''Expected variables ['' @ join '','' (st3 ! xs) @ ''] and ['' @
                               join '','' (st3 ! ys) @ ''] to be the same'')) loc []), st3))
         | (HQuantified i n, HQuantified j m) \<Rightarrow>
             if n = m then (Inr [], st2)
             else (mapLeft (buildErrorLeaf loc) (mapRight (\<lambda>subs. [subs]) (bindVariablesH n v2 st2)), st2)
         | (HQuantified i n, _) \<Rightarrow>
             (mapLeft (buildErrorLeaf loc) (mapRight (\<lambda>subs. [subs]) (bindVariablesH n v2 st2)), st2)
         | (_, HQuantified j m) \<Rightarrow>
             (mapLeft (buildErrorLeaf loc) (mapRight (\<lambda>subs. [subs]) (bindVariablesH m v1 st2)), st2)
         | _ \<Rightarrow>
             if stringify (readVariables st2 v1) = stringify (readVariables st2 v2) then (Inr [], st2)
             else (Inl (ErrorTree (Some ''Unification for unions of variables is not implemented'') loc []), st2))))"

subsection \<open>The path of unify through two concrete effects, on the store\<close>

text \<open>
  \<open>uniqueVariables\<close> builds a new array for a concrete bag; \<open>applySubstitutionToVariables\<close>
  and \<open>flattenUnions\<close> hand a concrete bag on as the object it is.
\<close>

fun setOfObjectsH :: "nat list \<Rightarrow> HVariables list \<Rightarrow> HVariables list" where
  "setOfObjectsH seen [] = []"
| "setOfObjectsH seen (HQuantified i n # vs) =
     (if i \<in> set seen then setOfObjectsH seen vs else HQuantified i n # setOfObjectsH (i # seen) vs)"
| "setOfObjectsH seen (v # vs) = v # setOfObjectsH seen vs"

fun uniqueVariablesH :: "HVariables \<Rightarrow> store \<Rightarrow> HVariables \<times> store" where
  "uniqueVariablesH (HQuantified i n) st = (HQuantified i n, st)"
| "uniqueVariablesH (HConcrete a) st = (HConcrete (length st), st @ [arrayFromSet (st ! a)])"
| "uniqueVariablesH (HUnion vs) st =
     (case fold (\<lambda>v (acc, s). case uniqueVariablesH v s of (v', s') \<Rightarrow> (acc @ [v'], s')) vs ([], st) of
        (nestedVariables, st1) \<Rightarrow> (HUnion (setOfObjectsH [] nestedVariables), st1))"

definition simplifyConcreteEffectH ::
  "HVariables \<Rightarrow> HVariables \<Rightarrow> store \<Rightarrow> (ErrorTree + HVariables \<times> HVariables) \<times> store" where
  "simplifyConcreteEffectH r u st =
     (case flattenUnionsH r st of (fr, st1) \<Rightarrow>
      case uniqueVariablesH fr st1 of (read, st2) \<Rightarrow>
      case flattenUnionsH u st2 of (update, st3) \<Rightarrow>
      let updateVars = findVars (readVariables st3 u);
          repeated = filter (\<lambda>v. length (filter (\<lambda>v2. v = v2) updateVars) > 1) updateVars
      in if length repeated > 0 then
           (Inl (ErrorTree
                 (Some (''Multiple updates of variable(s): '' @ join '','' (arrayFromSet repeated)))
                 (''Trying to simplify effect '' @
                    effectToString (EConcrete (readVariables st3 r) (readVariables st3 u))) []), st3)
         else (Inr (read, update), st3))"

fun applySubstitutionToVariablesH :: "HSubstitution list \<Rightarrow> HVariables \<Rightarrow> HVariables" where
  "applySubstitutionToVariablesH subs (HQuantified i n) =
     (case find (\<lambda>s. case s of HSVariable m v \<Rightarrow> m = n) subs of
        Some (HSVariable m v) \<Rightarrow> v
      | None \<Rightarrow> HQuantified i n)"
| "applySubstitutionToVariablesH subs (HUnion vs) = HUnion (map (applySubstitutionToVariablesH subs) vs)"
| "applySubstitutionToVariablesH subs (HConcrete a) = HConcrete a"

definition applySubstitutionH ::
  "HSubstitution list \<Rightarrow> HVariables \<times> HVariables \<Rightarrow> store \<Rightarrow> (ErrorTree + HVariables \<times> HVariables) \<times> store" where
  "applySubstitutionH subs e st =
     simplifyConcreteEffectH (applySubstitutionToVariablesH subs (fst e))
                             (applySubstitutionToVariablesH subs (snd e)) st"

text \<open>\<open>mergeInMany\<close> of two results that were computed one after the other.\<close>

definition unifyConcreteH ::
  "HVariables \<times> HVariables \<Rightarrow> HVariables \<times> HVariables \<Rightarrow> store \<Rightarrow> (Error + HSubstitution list) \<times> store" where
  "unifyConcreteH e1 e2 st =
     (case unifyVariablesH (fst e1) (fst e2) st of
        (Inl err, st1) \<Rightarrow> (Inl (One err), st1)
      | (Inr subs, st1) \<Rightarrow>
          (case applySubstitutionH subs e1 st1 of (a1, st2) \<Rightarrow>
          (case applySubstitutionH subs e2 st2 of (a2, st3) \<Rightarrow>
          (case mergeInMany [a1, a2] of
             Inl errs \<Rightarrow> (Inl (Many errs), st3)
           | Inr es \<Rightarrow>
               (case unifyVariablesH (snd (es ! 0)) (snd (es ! 1)) st3 of
                  (Inl err, st4) \<Rightarrow> (Inl (One err), st4)
                | (Inr subs2, st4) \<Rightarrow> (Inr (concat [subs, subs2]), st4))))))"

definition unifyConcreteEffectsH ::
  "HVariables \<times> HVariables \<Rightarrow> HVariables \<times> HVariables \<Rightarrow> store \<Rightarrow> (ErrorTree + HSubstitution list) \<times> store" where
  "unifyConcreteEffectsH ea eb st =
     (let loc = ''Trying to unify '' @
                  effectToString (EConcrete (readVariables st (fst ea)) (readVariables st (snd ea))) @ '' and '' @
                  effectToString (EConcrete (readVariables st (fst eb)) (readVariables st (snd eb)))
      in case simplifyConcreteEffectH (fst ea) (snd ea) st of (s1, st1) \<Rightarrow>
        (case simplifyConcreteEffectH (fst eb) (snd eb) st1 of (s2, st2) \<Rightarrow>
        (case mergeInMany [s1, s2] of
           Inl errs \<Rightarrow> (Inl (buildErrorTree loc (Many errs)), st2)
         | Inr es \<Rightarrow>
             (case unifyConcreteH (es ! 0) (es ! 1) st2 of (r, st3) \<Rightarrow> (mapLeft (buildErrorTree loc) r, st3)))))"

section \<open>Predicates used to state the properties\<close>

fun isUnion :: "Variables \<Rightarrow> bool" where
  "isUnion (VUnion vs) = True"
| "isUnion v = False"



fun unionChildren :: "Variables \<Rightarrow> Variables list" where
  "unionChildren (VUnion vs) = vs"
| "unionChildren v = []"

text \<open>No union, at any depth, has a union among its children.\<close>

fun flatteningInvariant :: "Variables \<Rightarrow> bool" where
  "flatteningInvariant (VUnion vs) = list_all (\<lambda>v. \<not> isUnion v \<and> flatteningInvariant v) vs"
| "flatteningInvariant v = True"

text \<open>What a flattened child adds to \<open>unionVariables\<close> and to \<open>vars\<close>.\<close>

fun unionPart :: "Variables \<Rightarrow> Variables list" where
  "unionPart (VQuantified i n) = [VQuantified i n]"
| "unionPart (VConcrete xs) = []"
| "unionPart (VUnion ws) = ws"

fun concretePart :: "Variables \<Rightarrow> string list" where
  "concretePart (VConcrete xs) = xs"
| "concretePart v = []"

text \<open>The shape of a flattened value: not a union, or a union of values that are not unions.\<close>

definition flatShape :: "Variables \<Rightarrow> bool" where
  "flatShape v = (\<not> isUnion v \<or> list_all (\<lambda>c. \<not> isUnion c) (unionChildren v))"









text \<open>No binding of the list has one of the given names.\<close>

definition unbound :: "Substitution list \<Rightarrow> string list \<Rightarrow> bool" where
  "unbound s ns = list_all (\<lambda>b. sub_name b \<notin> set ns) s"






text \<open>Renaming the quantified bags of a value.\<close>

fun rename :: "(string \<Rightarrow> string) \<Rightarrow> Variables \<Rightarrow> Variables" where
  "rename f (VQuantified i n) = VQuantified i (f n)"
| "rename f (VConcrete xs) = VConcrete xs"
| "rename f (VUnion vs) = VUnion (map (rename f) vs)"


text \<open>Every result of the first function is also the result of the second.\<close>

definition resultsKept ::
  "(Effect \<Rightarrow> Effect \<Rightarrow> (ErrorTree + Substitution list) option) \<Rightarrow>
   (Effect \<Rightarrow> Effect \<Rightarrow> (ErrorTree + Substitution list) option) \<Rightarrow> bool" where
  "resultsKept u u' = (\<forall>a b r. u a b = Some r \<longrightarrow> u' a b = Some r)"


section \<open>Properties\<close>

subsection \<open>Flattening\<close>

lemma fold_flattenStep:
  "fold flattenStep fs (uv, vars) = (uv @ concat (map unionPart fs), vars @ concat (map concretePart fs))"
proof (induction fs arbitrary: uv vars)
  case Nil then show ?case by simp
next
  case (Cons f fs) then show ?case by (cases f) simp_all
qed

lemma flattenUnions_union:
  "flattenUnions (VUnion vs) =
     flattenResult (concat (map (unionPart \<circ> flattenUnions) vs), concat (map (concretePart \<circ> flattenUnions) vs))"
  by (simp add: fold_flattenStep map_concat comp_def)

lemma unionPart_leaves:
  "flatShape f \<Longrightarrow> list_all (\<lambda>c. \<not> isUnion c) (unionPart f)"
  by (cases f) (simp_all add: flatShape_def)

lemma flattenResult_shape:
  "list_all (\<lambda>c. \<not> isUnion c) uv \<Longrightarrow> flatShape (flattenResult (uv, vars))"
  by (cases uv) (auto simp add: flattenResult_def flatShape_def Let_def)

lemma flattenUnions_shape: "flatShape (flattenUnions v)"
proof (induction v)
  case (VUnion vs)
  have "list_all (\<lambda>c. \<not> isUnion c) (concat (map (unionPart \<circ> flattenUnions) vs))"
    using VUnion unionPart_leaves by (induction vs) (simp_all)
  then show ?case unfolding flattenUnions_union by (rule flattenResult_shape)
qed (simp_all add: flatShape_def)

lemma flatShape_invariant: "flatShape v \<Longrightarrow> flatteningInvariant v"
proof (cases v)
  case (VUnion vs)
  assume "flatShape v"
  then have "list_all (\<lambda>c. \<not> isUnion c) vs" using VUnion by (simp add: flatShape_def)
  moreover have "\<not> isUnion c \<Longrightarrow> flatteningInvariant c" for c by (cases c) simp_all
  ultimately show ?thesis using VUnion by (auto simp add: list_all_iff)
qed simp_all

text \<open>
  Claim C9. For every Vars value \<open>v\<close>, no union reachable in \<open>flattenUnions v\<close> has a
  union among its children: the flattening invariant holds at every depth of the result.
\<close>

theorem C9_flattenUnions_invariant: "flatteningInvariant (flattenUnions v)"
  by (rule flatShape_invariant) (rule flattenUnions_shape)

subsection \<open>The bag unifier on unions\<close>




subsection \<open>The occurs check\<close>







text \<open>
  Claim C1 says that \<open>bindEffect n e\<close> is a cyclical-binding error whenever \<open>e\<close> mentions
  \<open>n\<close>. At \<open>n = e\<close> and the effect \<open>(e) => Pure\<close> the walk does enumerate the effect name
  \<open>e\<close>, and yet \<open>bindEffect\<close> returns the binding, and so does \<open>unify\<close>.
\<close>

theorem C1_bindEffect_misses_cycle:
  "map (\<lambda>x. (kind x, name x))
     (fst (effectNames (EArrow [EQuantified ''e''] (EConcrete (VConcrete []) (VConcrete []))) 0)) =
     [(KEffect, ''e'')] \<and>
   bindEffect ''e'' (EArrow [EQuantified ''e''] (EConcrete (VConcrete []) (VConcrete []))) =
     Inr (SEffect ''e'' (EArrow [EQuantified ''e''] (EConcrete (VConcrete []) (VConcrete [])))) \<and>
   unify 1 (EQuantified ''e'') (EArrow [EQuantified ''e''] (EConcrete (VConcrete []) (VConcrete []))) =
     Some (Inr [SEffect ''e'' (EArrow [EQuantified ''e''] (EConcrete (VConcrete []) (VConcrete [])))])"
  by (simp add: unifyBody_def mergeInMany_def lefts_def rights_def bindEffect_def arrayIncludes_def
      mapLeft_def mapRight_def)

subsection \<open>Substitution of a quantified effect\<close>

lemma find_first:
  "list_all (\<lambda>b. \<not> P b) pre \<Longrightarrow> P x \<Longrightarrow> find P (pre @ x # post) = Some x"
  by (induction pre) simp_all

lemma find_none: "list_all (\<lambda>b. \<not> P b) s \<Longrightarrow> find P s = None"
  by (induction s) simp_all

text \<open>
  Claim C6 says that a quantified effect is replaced by the value of the effect binding for
  its name wherever that binding stands in the list, whatever variable bindings share the
  name. With a variable binding for \<open>e\<close> in front of the effect binding for \<open>e\<close>, the
  effect \<open>e\<close> is returned unchanged.
\<close>

theorem C6_counterexample:
  "applySubstitution [SVariable ''e'' (VConcrete [''x'']), SEffect ''e'' (EQuantified ''d'')] (EQuantified ''e'')
     = Inr (EQuantified ''e'') \<and>
   applySubstitution [SVariable ''e'' (VConcrete [''x'']), SEffect ''e'' (EQuantified ''d'')] (EQuantified ''e'')
     \<noteq> Inr (EQuantified ''d'')"
  by (simp add: chain_def)

text \<open>
  Claim C6, amended. Applying \<open>s\<close> to \<open>Quantified(n)\<close> looks at the first binding of \<open>s\<close>
  named \<open>n\<close>, of either kind: with no binding named \<open>n\<close> the effect is returned
  unchanged; when the first one is an effect binding its value is returned, simplified if
  it is a concrete effect (which may fail); when the first one is a variable binding the
  effect is returned unchanged, whatever effect bindings for \<open>n\<close> follow.
\<close>

theorem C6_applySubstitution_quantified:
  "(list_all (\<lambda>b. sub_name b \<noteq> n) s \<longrightarrow> applySubstitution s (EQuantified n) = Inr (EQuantified n)) \<and>
   (list_all (\<lambda>b. sub_name b \<noteq> n) pre \<longrightarrow>
      applySubstitution (pre @ SEffect n v # post) (EQuantified n) = simplifyIfConcrete v) \<and>
   (list_all (\<lambda>b. sub_name b \<noteq> n) pre \<longrightarrow>
      applySubstitution (pre @ SVariable n w # post) (EQuantified n) = Inr (EQuantified n))"
proof (intro conjI impI)
  assume "list_all (\<lambda>b. sub_name b \<noteq> n) s"
  then have "find (\<lambda>b. sub_name b = n) s = None" by (rule find_none)
  then show "applySubstitution s (EQuantified n) = Inr (EQuantified n)" by (simp add: chain_def)
next
  assume "list_all (\<lambda>b. sub_name b \<noteq> n) pre"
  then have "find (\<lambda>b. sub_name b = n) (pre @ SEffect n v # post) = Some (SEffect n v)"
    by (rule find_first) simp
  then show "applySubstitution (pre @ SEffect n v # post) (EQuantified n) = simplifyIfConcrete v"
    by (simp add: chain_def)
next
  assume "list_all (\<lambda>b. sub_name b \<noteq> n) pre"
  then have "find (\<lambda>b. sub_name b = n) (pre @ SVariable n w # post) = Some (SVariable n w)"
    by (rule find_first) simp
  then show "applySubstitution (pre @ SVariable n w # post) (EQuantified n) = Inr (EQuantified n)"
    by (simp add: chain_def)
qed

theorem C6_applySubstitution_quantified_witness:
  "applySubstitution [SEffect ''d'' (EQuantified ''c'')] (EQuantified ''e'') = Inr (EQuantified ''e'') \<and>
   applySubstitution ([SEffect ''d'' (EQuantified ''c'')] @
       SEffect ''e'' (EConcrete (VConcrete [''x'', ''x'']) (VConcrete [])) # [SEffect ''e'' (EQuantified ''c'')])
     (EQuantified ''e'') = Inr (EConcrete (VConcrete [''x'']) (VConcrete [])) \<and>
   applySubstitution ([SEffect ''d'' (EQuantified ''c'')] @
       SVariable ''e'' (VConcrete []) # [SEffect ''e'' (EQuantified ''c'')])
     (EQuantified ''e'') = Inr (EQuantified ''e'')"
  using C6_applySubstitution_quantified [where n = "''e''" and s = "[SEffect ''d'' (EQuantified ''c'')]"
          and pre = "[SEffect ''d'' (EQuantified ''c'')]"
          and v = "EConcrete (VConcrete [''x'', ''x'']) (VConcrete [])"
          and post = "[SEffect ''e'' (EQuantified ''c'')]" and w = "VConcrete []"]
  by (simp add: simplifyConcreteEffect_def arrayFromSet_def)


subsection \<open>The arguments of unify after the call\<close>

text \<open>
  Claim C3 says that \<open>unify\<close> leaves its arguments as they were. Take the effects
  \<open>Update['b', 'a']\<close> and \<open>Update['a', 'b']\<close>, with their four arrays at the addresses
  0 to 3. The call succeeds with the empty substitution, and afterwards the update array
  of the first argument, at address 1, holds \<open>a, b\<close>: \<open>sameVars\<close> has sorted the caller's
  array. The bag unifier alone shows the same on two bags.
\<close>

theorem C3_unify_sorts_argument_array:
  "unifyConcreteEffectsH (HConcrete 0, HConcrete 1) (HConcrete 2, HConcrete 3)
       [[], [''b'', ''a''], [], [''a'', ''b'']] =
     (Inr [], [[], [''a'', ''b''], [], [''a'', ''b''], [], [], [], []]) \<and>
   unifyVariablesH (HConcrete 0) (HConcrete 1) [[''b'', ''a''], [''a'', ''b'']] =
     (Inr [], [[''a'', ''b''], [''a'', ''b'']])"
  by code_simp

subsection \<open>What a flattened union is\<close>










subsection \<open>Simplifying twice\<close>

















subsection \<open>Composition\<close>



lemma unbound_subset: "unbound s ns \<Longrightarrow> set ms \<subseteq> set ns \<Longrightarrow> unbound s ms"
  by (auto simp add: unbound_def list_all_iff)








subsection \<open>The bound of unify\<close>

text \<open>
  A result that \<open>unify\<close> returns within some bound is the result within every larger
  bound, so a result computed at one bound is the result of the call.
\<close>

lemma applySubstitutionsAndUnify_kept:
  assumes k: "resultsKept u u'" and r: "applySubstitutionsAndUnify u subs e1 e2 = Some r"
  shows "applySubstitutionsAndUnify u' subs e1 e2 = Some r"
proof (cases "mergeInMany [applySubstitution subs e1, applySubstitution subs e2]")
  case (Inl errs)
  then show ?thesis using r by (simp add: applySubstitutionsAndUnify_def)
next
  case (Inr es)
  show ?thesis
  proof (cases "u (es ! 0) (es ! 1)")
    case None
    then show ?thesis using r Inr by (simp add: applySubstitutionsAndUnify_def)
  next
    case (Some x)
    then have "u' (es ! 0) (es ! 1) = Some x" using k by (simp add: resultsKept_def)
    then show ?thesis using r Inr Some by (simp add: applySubstitutionsAndUnify_def)
  qed
qed

lemma fold_params_None:
  "fold (\<lambda>(e, e') result. case result of Some (Inr subs) \<Rightarrow> applySubstitutionsAndUnify u subs e e' | other \<Rightarrow> other)
        zs None = None"
  by (induction zs) (simp_all add: case_prod_beta)

lemma fold_params_kept:
  assumes k: "resultsKept u u'"
  shows "fold (\<lambda>(e, e') result. case result of Some (Inr subs) \<Rightarrow> applySubstitutionsAndUnify u subs e e' | other \<Rightarrow> other)
           zs acc = Some r \<Longrightarrow>
         fold (\<lambda>(e, e') result. case result of Some (Inr subs) \<Rightarrow> applySubstitutionsAndUnify u' subs e e' | other \<Rightarrow> other)
           zs acc = Some r"
proof (induction zs arbitrary: acc)
  case Nil
  then show ?case by simp
next
  case (Cons z zs)
  obtain e e' where z: "z = (e, e')" by (cases z)
  let ?step = "\<lambda>w. case acc of Some (Inr subs) \<Rightarrow> applySubstitutionsAndUnify w subs e e' | other \<Rightarrow> other"
  have f: "fold (\<lambda>(e, e') result. case result of Some (Inr subs) \<Rightarrow> applySubstitutionsAndUnify u subs e e' | other \<Rightarrow> other)
             zs (?step u) = Some r"
    using Cons.prems z by simp
  have "?step u \<noteq> None"
  proof
    assume "?step u = None"
    then have "fold (\<lambda>(e, e') result. case result of Some (Inr subs) \<Rightarrow> applySubstitutionsAndUnify u subs e e' | other \<Rightarrow> other)
             zs (?step u) = None" by (simp only: fold_params_None)
    then show False using f by simp
  qed
  then obtain x where x: "?step u = Some x" by blast
  have "?step u' = Some x"
  proof (cases acc)
    case None then show ?thesis using x by simp
  next
    case (Some y)
    show ?thesis
    proof (cases y)
      case (Inl err)
      have "x = Inl err" using x Some Inl by simp
      then show ?thesis using Some Inl by simp
    next
      case (Inr subs)
      then show ?thesis using x Some applySubstitutionsAndUnify_kept[OF k, of subs e e' x] by simp
    qed
  qed
  then show ?case using Cons.IH[of "?step u"] f x z by simp
qed

lemma unifyArrows_kept:
  assumes k: "resultsKept u u'" and r: "unifyArrows u loc ps1 r1 ps2 r2 = Some r"
  shows "unifyArrows u' loc ps1 r1 ps2 r2 = Some r"
proof (cases "length ps1 \<noteq> length ps2")
  case True
  then show ?thesis using r by (simp add: unifyArrows_def)
next
  case False
  let ?F = "\<lambda>w. fold (\<lambda>(e, e') result. case result of Some (Inr subs) \<Rightarrow> applySubstitutionsAndUnify w subs e e' | other \<Rightarrow> other)
                   (zip ps1 ps2) (Some (Inr []))"
  have "?F u \<noteq> None"
  proof
    assume "?F u = None"
    then show False using r False by (simp add: unifyArrows_def)
  qed
  then obtain x where x: "?F u = Some x" by blast
  then have x': "?F u' = Some x" using fold_params_kept[OF k] by simp
  show ?thesis
  proof (cases x)
    case (Inl err)
    have "r = Inl err" using r False x Inl by (simp add: unifyArrows_def)
    then show ?thesis using False x' Inl by (simp add: unifyArrows_def)
  next
    case (Inr subs)
    then have "applySubstitutionsAndUnify u subs r1 r2 = Some r"
      using r False x by (simp add: unifyArrows_def)
    then have "applySubstitutionsAndUnify u' subs r1 r2 = Some r"
      using k by (rule applySubstitutionsAndUnify_kept[rotated])
    then show ?thesis using False x' Inr by (simp add: unifyArrows_def)
  qed
qed

lemma unifyBody_kept:
  assumes k: "resultsKept u u'"
  shows "resultsKept (unifyBody u) (unifyBody u')"
proof -
  have "unifyBody u' a b = Some r" if r: "unifyBody u a b = Some r" for a b r
  proof (cases "mergeInMany (map simplifyIfConcrete [a, b])")
    case (Inl errs)
    then show ?thesis using r by (simp add: unifyBody_def Let_def)
  next
    case (Inr es)
    show ?thesis
    proof (cases "\<exists>ps1 r1 ps2 r2. es ! 0 = EArrow ps1 r1 \<and> es ! 1 = EArrow ps2 r2")
      case True
      then obtain ps1 r1 ps2 r2 where e: "es ! 0 = EArrow ps1 r1" "es ! 1 = EArrow ps2 r2" by blast
      let ?loc = "''Trying to unify '' @ effectToString a @ '' and '' @ effectToString b"
      have "unifyArrows u ?loc ps1 r1 ps2 r2 \<noteq> None"
      proof
        assume "unifyArrows u ?loc ps1 r1 ps2 r2 = None"
        then show False using r Inr e by (simp add: unifyBody_def Let_def)
      qed
      then obtain x where x: "unifyArrows u ?loc ps1 r1 ps2 r2 = Some x" by blast
      then have "unifyArrows u' ?loc ps1 r1 ps2 r2 = Some x" using k by (rule unifyArrows_kept[rotated])
      then show ?thesis using r Inr e x by (simp add: unifyBody_def Let_def)
    next
      case False
      then show ?thesis using r Inr
        by (cases "es ! 0"; cases "es ! 1") (simp_all add: unifyBody_def Let_def)
    qed
  qed
  then show ?thesis by (simp add: resultsKept_def)
qed

lemma unify_Suc_kept: "resultsKept (unify n) (unify (Suc n))"
proof (induction n)
  case 0
  show ?case by (simp add: resultsKept_def)
next
  case (Suc n)
  then show ?case using unifyBody_kept by simp
qed

lemma unify_more_fuel: "unify n a b = Some r \<Longrightarrow> unify (n + k) a b = Some r"
proof (induction k)
  case 0 then show ?case by simp
next
  case (Suc k)
  then show ?case using unify_Suc_kept[of "n + k"] by (simp add: resultsKept_def)
qed


subsection \<open>When the bag unifier succeeds\<close>























lemma findVars_rename: "findVars (rename f v) = findVars v"
proof (induction v)
  case (VUnion vs) then show ?case by (induction vs) simp_all
qed simp_all




















subsection \<open>Soundness of the unifier\<close>




subsection \<open>Symmetry of the unifier\<close>





end
